theory Spec2Isabelle
  imports Complex_Main
begin

section \<open>Webhook configuration loading (live\_vlm\_webui/webhook\_config.py)\<close>

text \<open>
  The module reads six environment variables, parses each into a typed field, replaces a
  malformed value by a default with a logged warning, and returns a \<open>WebhookConfig\<close>.

  The embedding makes the two ambient inputs and the one effect explicit:
  \<^item> \<open>os.environ\<close> is a map from names to values, passed as an argument;
  \<^item> the interpreter's limit on the digits of an integer literal
    (\<open>sys.get_int_max_str_digits()\<close>, 0 for no limit) is passed as an argument;
  \<^item> the calls of \<open>logger.warning\<close> are returned as the list of formatted messages,
    in the order of the calls.

  A Python string is a sequence of code points. Here a string is a \<open>char list\<close> and a
  \<open>char\<close> stands for the code point of the same number, so the embedding covers the
  values whose code points are below 256 (ASCII and Latin-1). On that range the tables
  behind \<open>str.strip\<close>, \<open>str.lower\<close>, \<open>int\<close> and \<open>float\<close> are written out in full.
\<close>

subsection \<open>Strings: \<open>str.strip()\<close> and \<open>str.lower()\<close>\<close>

text \<open>
  \<open>str.strip()\<close> without an argument removes the characters for which \<open>str.isspace\<close>
  holds: below 256 these are U+0009..U+000D, U+001C..U+0020, U+0085 and U+00A0.
\<close>

definition isspace :: "char \<Rightarrow> bool" where
  "isspace c =
     (let n = (of_char c :: nat)
      in (9 \<le> n \<and> n \<le> 13) \<or> (28 \<le> n \<and> n \<le> 32) \<or> n = 133 \<or> n = 160)"

definition strip :: "string \<Rightarrow> string" where
  "strip s = rev (dropWhile isspace (rev (dropWhile isspace s)))"

text \<open>
  \<open>str.lower()\<close>: below 256 the cased characters with a lowercase partner are A..Z and
  U+00C0..U+00DE without U+00D7 (the multiplication sign); each maps 32 code points up.
\<close>

definition lower_char :: "char \<Rightarrow> char" where
  "lower_char c =
     (let n = (of_char c :: nat)
      in if (65 \<le> n \<and> n \<le> 90) \<or> (192 \<le> n \<and> n \<le> 222 \<and> n \<noteq> 215)
         then char_of (n + 32) else c)"

definition lower :: "string \<Rightarrow> string" where
  "lower s = map lower_char s"

subsection \<open>Exceptions\<close>

text \<open>
  The exceptions of the built-in conversions. The handlers of the module catch
  \<open>ValueError\<close> only; any other exception would leave \<open>load_webhook_config\<close>.
\<close>

datatype exn = ValueError | TypeError | OverflowError

subsection \<open>Characters of a numeric literal\<close>

definition is_digit :: "char \<Rightarrow> bool" where
  "is_digit c = (let n = (of_char c :: nat) in 48 \<le> n \<and> n \<le> 57)"

definition digit_val :: "char \<Rightarrow> int" where
  "digit_val c = of_char c - 48"

definition digits_val :: "string \<Rightarrow> int" where
  "digits_val ds = foldl (\<lambda>a c. 10 * a + digit_val c) 0 ds"

text \<open>
  \<open>int\<close> and \<open>float\<close> first rewrite a non-ASCII string: a whitespace character becomes
  a blank, a decimal digit its ASCII digit, anything else ends the literal with \<open>?\<close>.
  Below 256 there is no decimal digit beyond ASCII, and the only whitespace beyond ASCII is
  U+0085 and U+00A0; every other character is left as it is and is rejected by the
  parsers below, as \<open>?\<close> would be.
\<close>

definition space_to_ascii :: "char \<Rightarrow> char" where
  "space_to_ascii c =
     (let n = (of_char c :: nat) in if n = 133 \<or> n = 160 then CHR '' '' else c)"

text \<open>
  The parsers then skip the whitespace of the C locale on both sides (\<open>Py_ISSPACE\<close>):
  U+0009..U+000D and the blank; not U+001C..U+001F, which \<open>str.strip\<close> removes.
\<close>

definition c_isspace :: "char \<Rightarrow> bool" where
  "c_isspace c = (let n = (of_char c :: nat) in (9 \<le> n \<and> n \<le> 13) \<or> n = 32)"

definition num_strip :: "string \<Rightarrow> string" where
  "num_strip s =
     (let t = map space_to_ascii s
      in rev (dropWhile c_isspace (rev (dropWhile c_isspace t))))"

definition take_sign :: "string \<Rightarrow> bool \<times> string" where
  "take_sign s =
     (case s of
        [] \<Rightarrow> (False, [])
      | c # r \<Rightarrow>
          if c = CHR ''-'' then (True, r)
          else if c = CHR ''+'' then (False, r)
          else (False, s))"

subsection \<open>\<open>int(str)\<close>\<close>

text \<open>
  The digits of a base-10 literal: a digit, then digits each optionally preceded by one
  underscore. No underscore at either end, no two in a row.
\<close>

fun digitpart :: "string \<Rightarrow> bool" where
  "digitpart [] = False"
| "digitpart [c] = is_digit c"
| "digitpart (c # d # r) =
     (is_digit c \<and> (if d = CHR ''_'' then digitpart r else digitpart (d # r)))"

text \<open>
  \<open>int(s)\<close> for a string: surrounding whitespace, an optional sign, the digits. Since
  Python 3.11 a literal of more than 640 digits is refused with \<open>ValueError\<close> when the
  limit \<open>maxd\<close> is positive and the literal has more than \<open>maxd\<close> digits (underscores,
  sign and whitespace are not counted, leading zeros are). Python integers are unbounded.
\<close>

definition py_int :: "nat \<Rightarrow> string \<Rightarrow> exn + int" where
  "py_int maxd s =
     (let (neg, body) = take_sign (num_strip s)
      in if digitpart body
         then (let ds = filter is_digit body
               in if 640 < length ds \<and> 0 < maxd \<and> maxd < length ds
                  then Inl ValueError
                  else Inr (if neg then - digits_val ds else digits_val ds))
         else Inl ValueError)"

subsection \<open>Floating-point values\<close>

text \<open>
  A Python \<open>float\<close> is an IEEE 754 binary64 value: a finite value, written here as the
  rational number it denotes, one of the two infinities, or a NaN. The two zeros are
  both \<open>Finite 0\<close>; the module only compares a float with zero, where they agree.
\<close>

datatype pyfloat = Finite rat | PosInf | NegInf | NaN

text \<open>The comparisons \<open>x <= 0\<close> and \<open>x > 0\<close>; both are false of a NaN.\<close>

fun float_le_zero :: "pyfloat \<Rightarrow> bool" where
  "float_le_zero (Finite r) = (r \<le> 0)"
| "float_le_zero PosInf = False"
| "float_le_zero NegInf = True"
| "float_le_zero NaN = False"

fun float_gt_zero :: "pyfloat \<Rightarrow> bool" where
  "float_gt_zero (Finite r) = (0 < r)"
| "float_gt_zero PosInf = True"
| "float_gt_zero NegInf = False"
| "float_gt_zero NaN = False"

fun float_neg :: "pyfloat \<Rightarrow> pyfloat" where
  "float_neg (Finite r) = Finite (- r)"
| "float_neg PosInf = NegInf"
| "float_neg NegInf = PosInf"
| "float_neg NaN = NaN"

text \<open>
  Rounding a positive rational to binary64, to nearest with ties to even: 53 significant
  bits above \<open>2 ^ -1022\<close>, multiples of \<open>2 ^ -1074\<close> below, infinity from \<open>2 ^ 1024\<close> on.
\<close>

function bit_length :: "int \<Rightarrow> int" where
  "bit_length k = (if k \<le> 0 then 0 else 1 + bit_length (k div 2))"
  by pat_completeness auto
termination
  by (relation "measure nat") auto

declare bit_length.simps [simp del]

definition pow2 :: "int \<Rightarrow> rat" where
  "pow2 k = (if 0 \<le> k then 2 ^ nat k else 1 / 2 ^ nat (- k))"

definition pow10 :: "int \<Rightarrow> rat" where
  "pow10 k = (if 0 \<le> k then 10 ^ nat k else 1 / 10 ^ nat (- k))"

definition round_half_even :: "rat \<Rightarrow> int" where
  "round_half_even x =
     (let f = \<lfloor>x\<rfloor>; d = x - of_int f
      in if d < 1 / 2 then f
         else if 1 / 2 < d then f + 1
         else if even f then f else f + 1)"

definition binary_exponent :: "rat \<Rightarrow> int" where
  "binary_exponent q =
     (let (a, b) = quotient_of q;
          e = bit_length a - bit_length b
      in if pow2 e \<le> q then e else e - 1)"

definition round_double :: "rat \<Rightarrow> pyfloat" where
  "round_double q =
     (let u = pow2 (max (binary_exponent q) (- 1022) - 52);
          r = of_int (round_half_even (q / u)) * u
      in if pow2 1024 \<le> r then PosInf else Finite r)"

definition to_double :: "rat \<Rightarrow> pyfloat" where
  "to_double q = (if q = 0 then Finite 0 else round_double q)"

subsection \<open>\<open>float(str)\<close>\<close>

text \<open>
  An underscore is accepted between two digits only. \<open>prev\<close> is the character before
  the rest of the literal (U+0000 at the start).
\<close>

fun underscores_ok :: "char \<Rightarrow> string \<Rightarrow> bool" where
  "underscores_ok prev [] = (prev \<noteq> CHR ''_'')"
| "underscores_ok prev (c # cs) =
     ((if c = CHR ''_'' then is_digit prev
       else if prev = CHR ''_'' then is_digit c else True)
      \<and> underscores_ok c cs)"

text \<open>The exponent of a decimal literal: nothing, or \<open>e\<close>, an optional sign and digits.\<close>

definition parse_exponent :: "string \<Rightarrow> int option" where
  "parse_exponent s =
     (case s of
        [] \<Rightarrow> Some 0
      | c # cs \<Rightarrow>
          if c = CHR ''e'' \<or> c = CHR ''E''
          then (let (neg, ds) = take_sign cs
                in if ds \<noteq> [] \<and> list_all is_digit ds
                   then Some (if neg then - digits_val ds else digits_val ds)
                   else None)
          else None)"

text \<open>
  An unsigned decimal literal, as the exact rational it denotes: digits, an optional point
  and digits (at least one digit in all), an optional exponent.
\<close>

definition parse_decimal :: "string \<Rightarrow> rat option" where
  "parse_decimal s =
     (let ip = takeWhile is_digit s;
          r1 = dropWhile is_digit s;
          (fp, r2) = (case r1 of
                        [] \<Rightarrow> ([], [])
                      | c # cs \<Rightarrow>
                          if c = CHR ''.''
                          then (takeWhile is_digit cs, dropWhile is_digit cs)
                          else ([], r1))
      in if ip = [] \<and> fp = [] then None
         else (case parse_exponent r2 of
                 None \<Rightarrow> None
               | Some ex \<Rightarrow>
                   Some (of_int (digits_val (ip @ fp)) * pow10 (ex - int (length fp)))))"

text \<open>
  The words \<open>inf\<close>, \<open>infinity\<close> and \<open>nan\<close>, in any case of the ASCII letters
  (\<open>Py_TOLOWER\<close>).
\<close>

definition c_tolower :: "char \<Rightarrow> char" where
  "c_tolower c =
     (let n = (of_char c :: nat) in if 65 \<le> n \<and> n \<le> 90 then char_of (n + 32) else c)"

definition parse_inf_or_nan :: "string \<Rightarrow> pyfloat option" where
  "parse_inf_or_nan s =
     (let w = map c_tolower s
      in if w = ''inf'' \<or> w = ''infinity'' then Some PosInf
         else if w = ''nan'' then Some NaN
         else None)"

text \<open>
  The text of a float without its surrounding whitespace and underscores: an optional
  sign, then a decimal literal, rounded, or else one of the words.
\<close>

definition string_to_double :: "string \<Rightarrow> pyfloat option" where
  "string_to_double s =
     (let (neg, r) = take_sign s;
          v = (case parse_decimal r of
                 Some q \<Rightarrow> Some (to_double q)
               | None \<Rightarrow> parse_inf_or_nan r)
      in case v of
           None \<Rightarrow> None
         | Some x \<Rightarrow> Some (if neg then float_neg x else x))"

text \<open>
  \<open>float(s)\<close> for a string. A literal too large for binary64 is an infinity, not an
  error; whatever is not a float literal raises \<open>ValueError\<close>.
\<close>

definition py_float :: "string \<Rightarrow> exn + pyfloat" where
  "py_float s =
     (let t = num_strip s
      in if underscores_ok (CHR 0x00) t
         then (case string_to_double (filter (\<lambda>c. c \<noteq> CHR ''_'') t) of
                 None \<Rightarrow> Inl ValueError
               | Some x \<Rightarrow> Inr x)
         else Inl ValueError)"

subsection \<open>The environment\<close>

text \<open>
  \<open>os.environ\<close> as a map. \<open>os.getenv(name)\<close> is \<open>None\<close> for an unset variable,
  \<open>os.getenv(name, default)\<close> the default.
\<close>

type_synonym environ = "string \<rightharpoonup> string"

definition getenv :: "environ \<Rightarrow> string \<Rightarrow> string option" where
  "getenv env name = env name"

definition getenv_default :: "environ \<Rightarrow> string \<Rightarrow> string \<Rightarrow> string" where
  "getenv_default env name dflt = (case env name of None \<Rightarrow> dflt | Some v \<Rightarrow> v)"

subsection \<open>The configuration record\<close>

record WebhookConfig =
  enabled :: bool
  url :: string
  timeout_sec :: pyfloat
  mode :: string
  sample_every :: int
  include_metrics :: bool

subsection \<open>\<open>_env_bool\<close> (lines 22 to 26)\<close>

definition env_bool :: "environ \<Rightarrow> string \<Rightarrow> bool \<Rightarrow> bool" where
  "env_bool env name dflt =
     (case getenv env name of
        None \<Rightarrow> dflt
      | Some v \<Rightarrow> lower (strip v) \<in> {''1'', ''true'', ''yes'', ''on''})"

subsection \<open>\<open>load_webhook_config\<close> (lines 29 to 79)\<close>

text \<open>
  The first \<open>try\<close> statement (lines 41 to 50), from the raw text and the warnings logged
  so far to the timeout and the warnings logged after it. The body raises \<open>ValueError\<close>
  itself for a value \<open><= 0\<close>; the handler catches \<open>ValueError\<close> and nothing else.
\<close>

definition parse_timeout_sec :: "string \<Rightarrow> string list \<Rightarrow> exn + (pyfloat \<times> string list)" where
  "parse_timeout_sec timeout_raw warnings =
     (case (case py_float timeout_raw of
              Inl e \<Rightarrow> Inl e
            | Inr x \<Rightarrow> if float_le_zero x then Inl ValueError else Inr x) of
        Inr x \<Rightarrow> Inr (x, warnings)
      | Inl e \<Rightarrow>
          if e = ValueError
          then Inr (Finite 2,
                    warnings @ [''Invalid LIVE_VLM_WEBHOOK_TIMEOUT_SEC='' @ timeout_raw
                           @ '', using default 2.0''])
          else Inl e)"

text \<open>The second \<open>try\<close> statement (lines 52 to 61), in the same way.\<close>

definition parse_sample_every ::
  "nat \<Rightarrow> string \<Rightarrow> string list \<Rightarrow> exn + (int \<times> string list)" where
  "parse_sample_every maxd sample_raw warnings =
     (case (case py_int maxd sample_raw of
              Inl e \<Rightarrow> Inl e
            | Inr n \<Rightarrow> if n < 1 then Inl ValueError else Inr n) of
        Inr n \<Rightarrow> Inr (n, warnings)
      | Inl e \<Rightarrow>
          if e = ValueError
          then Inr (1,
                    warnings @ [''Invalid LIVE_VLM_WEBHOOK_SAMPLE_EVERY='' @ sample_raw
                           @ '', using default 1''])
          else Inl e)"

text \<open>
  The function itself. \<open>x or "both"\<close> is \<open>"both"\<close> for the empty string and \<open>x\<close>
  otherwise. The result is the record and the warnings, or the exception that left the
  function. \<open>CHR 0x27\<close> is the single quote of the third message.
\<close>

definition load_webhook_config :: "nat \<Rightarrow> environ \<Rightarrow> exn + (WebhookConfig \<times> string list)" where
  "load_webhook_config maxd env =
     (let enabled0 = env_bool env ''LIVE_VLM_WEBHOOK_ENABLED'' False;
          url0 = strip (getenv_default env ''LIVE_VLM_WEBHOOK_URL'' []);
          timeout_raw = getenv_default env ''LIVE_VLM_WEBHOOK_TIMEOUT_SEC'' ''2.0'';
          m = lower (strip (getenv_default env ''LIVE_VLM_WEBHOOK_MODE'' ''both''));
          mode0 = (if m = [] then ''both'' else m);
          sample_raw = getenv_default env ''LIVE_VLM_WEBHOOK_SAMPLE_EVERY'' ''1'';
          include_metrics0 = env_bool env ''LIVE_VLM_WEBHOOK_INCLUDE_METRICS'' True
      in case parse_timeout_sec timeout_raw [] of
           Inl e \<Rightarrow> Inl e
         | Inr (timeout_sec0, log1) \<Rightarrow>
             (case parse_sample_every maxd sample_raw log1 of
                Inl e \<Rightarrow> Inl e
              | Inr (sample_every0, log2) \<Rightarrow>
                  (let (mode1, log3) =
                         (if mode0 \<notin> {''single'', ''multi'', ''both''}
                          then (''both'',
                                log2 @ [''Invalid LIVE_VLM_WEBHOOK_MODE='' @ mode0
                                        @ '', using default '' @ [CHR 0x27] @ ''both''
                                        @ [CHR 0x27]])
                          else (mode0, log2));
                       (enabled1, log4) =
                         (if enabled0 \<and> url0 = []
                          then (False,
                                log3 @ [''LIVE_VLM_WEBHOOK_ENABLED is true but LIVE_VLM_WEBHOOK_URL is empty''])
                          else (enabled0, log3))
                   in Inr (\<lparr>enabled = enabled1, url = url0, timeout_sec = timeout_sec0,
                            mode = mode1, sample_every = sample_every0,
                            include_metrics = include_metrics0\<rparr>,
                           log4))))"

section \<open>Properties\<close>

subsection \<open>Names used in the statements\<close>

text \<open>The six variables and the four warnings, as the source spells them.\<close>

abbreviation VAR_ENABLED :: string where
  "VAR_ENABLED \<equiv> ''LIVE_VLM_WEBHOOK_ENABLED''"

abbreviation VAR_URL :: string where
  "VAR_URL \<equiv> ''LIVE_VLM_WEBHOOK_URL''"

abbreviation VAR_TIMEOUT_SEC :: string where
  "VAR_TIMEOUT_SEC \<equiv> ''LIVE_VLM_WEBHOOK_TIMEOUT_SEC''"

abbreviation VAR_MODE :: string where
  "VAR_MODE \<equiv> ''LIVE_VLM_WEBHOOK_MODE''"

abbreviation VAR_SAMPLE_EVERY :: string where
  "VAR_SAMPLE_EVERY \<equiv> ''LIVE_VLM_WEBHOOK_SAMPLE_EVERY''"

abbreviation VAR_INCLUDE_METRICS :: string where
  "VAR_INCLUDE_METRICS \<equiv> ''LIVE_VLM_WEBHOOK_INCLUDE_METRICS''"

abbreviation warn_timeout_sec :: "string \<Rightarrow> string" where
  "warn_timeout_sec raw \<equiv>
     ''Invalid LIVE_VLM_WEBHOOK_TIMEOUT_SEC='' @ raw @ '', using default 2.0''"

abbreviation warn_sample_every :: "string \<Rightarrow> string" where
  "warn_sample_every raw \<equiv>
     ''Invalid LIVE_VLM_WEBHOOK_SAMPLE_EVERY='' @ raw @ '', using default 1''"

abbreviation warn_mode :: "string \<Rightarrow> string" where
  "warn_mode m \<equiv>
     ''Invalid LIVE_VLM_WEBHOOK_MODE='' @ m @ '', using default '' @ [CHR 0x27] @ ''both''
     @ [CHR 0x27]"

abbreviation warn_no_url :: string where
  "warn_no_url \<equiv> ''LIVE_VLM_WEBHOOK_ENABLED is true but LIVE_VLM_WEBHOOK_URL is empty''"

subsection \<open>The environment and the strings\<close>

lemma getenv_default_upd: "getenv_default (env(k \<mapsto> v)) k d = v"
  by (simp add: getenv_default_def)

lemma getenv_default_unset: "env k = None \<Longrightarrow> getenv_default env k d = d"
  by (simp add: getenv_default_def)

lemma env_bool_unset: "env k = None \<Longrightarrow> env_bool env k d = d"
  by (simp add: env_bool_def getenv_def)

lemma env_bool_set:
  "env k = Some v \<Longrightarrow>
   env_bool env k d = (lower (strip v) \<in> {''1'', ''true'', ''yes'', ''on''})"
  by (simp add: env_bool_def getenv_def)

lemma strip_empty: "strip [] = []"
  by (simp add: strip_def)

lemma strip_all_space: "list_all isspace v \<Longrightarrow> strip v = []"
  by (auto simp: strip_def list_all_iff dest: set_dropWhileD)

lemma lower_strip_both: "lower (strip ''both'') = ''both''"
  by code_simp


lemma lower_strip_true: "lower (strip ''true'') = ''true''"
  by code_simp



lemma strip_url_example: "strip '' https://x '' = ''https://x''"
  by code_simp

subsection \<open>The conversions raise \<open>ValueError\<close> only\<close>

lemma py_float_raises: "py_float s = Inl e \<Longrightarrow> e = ValueError"
  by (auto simp: py_float_def Let_def split: if_splits option.splits)

lemma py_int_raises: "py_int maxd s = Inl e \<Longrightarrow> e = ValueError"
  by (auto simp: py_int_def Let_def split: if_splits prod.splits)

subsection \<open>The two \<open>try\<close> statements return\<close>

lemma parse_timeout_sec_returns:
  "parse_timeout_sec raw ws =
     Inr (case py_float raw of
            Inr x \<Rightarrow>
              if float_le_zero x then (Finite 2, ws @ [warn_timeout_sec raw]) else (x, ws)
          | Inl e \<Rightarrow> (Finite 2, ws @ [warn_timeout_sec raw]))"
proof (cases "py_float raw")
  case (Inl e)
  then have "e = ValueError" by (rule py_float_raises)
  with Inl show ?thesis by (simp add: parse_timeout_sec_def)
next
  case (Inr x)
  then show ?thesis by (simp add: parse_timeout_sec_def)
qed

lemma parse_sample_every_returns:
  "parse_sample_every maxd raw ws =
     Inr (case py_int maxd raw of
            Inr n \<Rightarrow> if n < 1 then (1, ws @ [warn_sample_every raw]) else (n, ws)
          | Inl e \<Rightarrow> (1, ws @ [warn_sample_every raw]))"
proof (cases "py_int maxd raw")
  case (Inl e)
  then have "e = ValueError" by (rule py_int_raises)
  with Inl show ?thesis by (simp add: parse_sample_every_def)
next
  case (Inr n)
  then show ?thesis by (simp add: parse_sample_every_def)
qed

lemma Inr_pair_ex: "\<exists>a b. (Inr x :: 'e + ('a \<times> 'b)) = Inr (a, b)"
  by (cases x) simp

lemma parse_timeout_sec_total: "\<exists>t w. parse_timeout_sec raw ws = Inr (t, w)"
  unfolding parse_timeout_sec_returns by (rule Inr_pair_ex)

lemma parse_sample_every_total: "\<exists>n w. parse_sample_every maxd raw ws = Inr (n, w)"
  unfolding parse_sample_every_returns by (rule Inr_pair_ex)

subsection \<open>What \<open>load_webhook_config\<close> returns\<close>

text \<open>
  For every environment the two \<open>try\<close> statements return, and the function returns a
  record and the warnings; the fields other than the two numbers are determined by the
  four other variables.
\<close>

lemma load_webhook_config_cases:
  obtains (result) t w1 n w2 where
    "parse_timeout_sec (getenv_default env VAR_TIMEOUT_SEC ''2.0'') [] = Inr (t, w1)"
    "parse_sample_every maxd (getenv_default env VAR_SAMPLE_EVERY ''1'') w1 = Inr (n, w2)"
    "load_webhook_config maxd env =
       Inr (\<lparr>enabled = (env_bool env VAR_ENABLED False
                         \<and> strip (getenv_default env VAR_URL []) \<noteq> []),
             url = strip (getenv_default env VAR_URL []),
             timeout_sec = t,
             mode = (if lower (strip (getenv_default env VAR_MODE ''both''))
                          \<in> {''single'', ''multi'', ''both''}
                     then lower (strip (getenv_default env VAR_MODE ''both''))
                     else ''both''),
             sample_every = n,
             include_metrics = env_bool env VAR_INCLUDE_METRICS True\<rparr>,
            w2
            @ (if lower (strip (getenv_default env VAR_MODE ''both'')) = []
                  \<or> lower (strip (getenv_default env VAR_MODE ''both''))
                       \<in> {''single'', ''multi'', ''both''}
               then []
               else [warn_mode (lower (strip (getenv_default env VAR_MODE ''both'')))])
            @ (if env_bool env VAR_ENABLED False \<and> strip (getenv_default env VAR_URL []) = []
               then [warn_no_url] else []))"
proof -
  from parse_timeout_sec_total
  obtain t w1 where
    t: "parse_timeout_sec (getenv_default env VAR_TIMEOUT_SEC ''2.0'') [] = Inr (t, w1)"
    by blast
  from parse_sample_every_total
  obtain n w2 where
    n: "parse_sample_every maxd (getenv_default env VAR_SAMPLE_EVERY ''1'') w1 = Inr (n, w2)"
    by blast
  show ?thesis
    apply (rule that [of t w1 n w2])
      apply (rule t)
     apply (rule n)
    apply (simp add: load_webhook_config_def Let_def t n)
    apply blast
    done
qed

lemma load_webhook_config_fields:
  "\<exists>c w. load_webhook_config maxd env = Inr (c, w)
     \<and> enabled c = (env_bool env VAR_ENABLED False \<and> strip (getenv_default env VAR_URL []) \<noteq> [])
     \<and> url c = strip (getenv_default env VAR_URL [])
     \<and> mode c = (if lower (strip (getenv_default env VAR_MODE ''both''))
                      \<in> {''single'', ''multi'', ''both''}
                 then lower (strip (getenv_default env VAR_MODE ''both''))
                 else ''both'')
     \<and> include_metrics c = env_bool env VAR_INCLUDE_METRICS True"
proof (cases rule: load_webhook_config_cases [of env maxd])
  case (result t w1 n w2)
  show ?thesis unfolding result(3) by simp
qed

subsection \<open>Totality\<close>


subsection \<open>Enabled needs a URL\<close>

text \<open>
  Claim C1. In every returned record, \<open>enabled\<close> implies a non-empty \<open>url\<close>; whenever
  the parsed flag is true and the trimmed URL is empty, the record has \<open>enabled = False\<close>
  and the warning about the missing URL is logged.
\<close>

theorem enabled_implies_url:
  "\<exists>c w. load_webhook_config maxd env = Inr (c, w)
     \<and> (enabled c \<longrightarrow> url c \<noteq> [])
     \<and> (env_bool env VAR_ENABLED False \<and> strip (getenv_default env VAR_URL []) = []
          \<longrightarrow> \<not> enabled c \<and> warn_no_url \<in> set w)"
proof (cases rule: load_webhook_config_cases [of env maxd])
  case (result t w1 n w2)
  show ?thesis unfolding result(3) by simp
qed

theorem enabled_implies_url_witness:
  "(\<exists>c w. load_webhook_config 4300 [VAR_ENABLED \<mapsto> ''true'', VAR_URL \<mapsto> '' https://x ''] = Inr (c, w)
      \<and> enabled c \<and> url c \<noteq> [])
   \<and> (\<exists>c w. load_webhook_config 4300 [VAR_ENABLED \<mapsto> ''true''] = Inr (c, w)
      \<and> \<not> enabled c \<and> warn_no_url \<in> set w)"
proof -
  have l1: "load_webhook_config 4300 [VAR_ENABLED \<mapsto> ''true'', VAR_URL \<mapsto> '' https://x '']
            = Inr (\<lparr>enabled = True, url = ''https://x'', timeout_sec = Finite 2, mode = ''both'',
                    sample_every = 1, include_metrics = True\<rparr>, [])"
    by code_simp
  have h1: "env_bool [VAR_ENABLED \<mapsto> ''true''] VAR_ENABLED False"
    by code_simp
  have h2: "strip (getenv_default [VAR_ENABLED \<mapsto> ''true''] VAR_URL []) = []"
    by code_simp
  from enabled_implies_url [of 4300 "[VAR_ENABLED \<mapsto> ''true'', VAR_URL \<mapsto> '' https://x '']"]
  have "\<exists>c w. load_webhook_config 4300 [VAR_ENABLED \<mapsto> ''true'', VAR_URL \<mapsto> '' https://x ''] = Inr (c, w)
      \<and> enabled c \<and> url c \<noteq> []"
    unfolding l1 by simp
  moreover from enabled_implies_url [of 4300 "[VAR_ENABLED \<mapsto> ''true'']"] h1 h2
  have "\<exists>c w. load_webhook_config 4300 [VAR_ENABLED \<mapsto> ''true''] = Inr (c, w)
      \<and> \<not> enabled c \<and> warn_no_url \<in> set w"
    by auto
  ultimately show ?thesis ..
qed

subsection \<open>The defaults\<close>

lemma py_float_default: "py_float ''2.0'' = Inr (Finite 2)"
  by code_simp

lemma py_int_default: "py_int maxd ''1'' = Inr 1"
  by (simp add: py_int_def num_strip_def take_sign_def space_to_ascii_def c_isspace_def
      is_digit_def digits_val_def digit_val_def Let_def)

text \<open>
  Claim C4. With the six variables unset the function returns the default record:
  \<open>enabled = False\<close>, \<open>url = ""\<close>, \<open>timeout_sec = 2.0\<close>, \<open>mode = "both"\<close>,
  \<open>sample_every = 1\<close>, \<open>include_metrics = True\<close> (and logs nothing).
\<close>

theorem load_webhook_config_defaults:
  assumes "env VAR_ENABLED = None" and "env VAR_URL = None"
    and "env VAR_TIMEOUT_SEC = None" and "env VAR_MODE = None"
    and "env VAR_SAMPLE_EVERY = None" and "env VAR_INCLUDE_METRICS = None"
  shows "load_webhook_config maxd env =
           Inr (\<lparr>enabled = False, url = [], timeout_sec = Finite 2, mode = ''both'',
                 sample_every = 1, include_metrics = True\<rparr>, [])"
proof -
  have t: "parse_timeout_sec ''2.0'' [] = Inr (Finite 2, [])"
    by (simp add: parse_timeout_sec_returns py_float_default)
  have n: "parse_sample_every maxd ''1'' [] = Inr (1, [])"
    by (simp add: parse_sample_every_returns py_int_default)
  show ?thesis
    unfolding load_webhook_config_def
    by (simp add: assms getenv_default_unset env_bool_unset strip_empty lower_strip_both t n)
qed

theorem load_webhook_config_defaults_witness:
  "load_webhook_config 4300 Map.empty =
     Inr (\<lparr>enabled = False, url = [], timeout_sec = Finite 2, mode = ''both'',
           sample_every = 1, include_metrics = True\<rparr>, [])"
  using load_webhook_config_defaults [of Map.empty 4300] by simp

subsection \<open>Boolean variables\<close>


subsection \<open>The timeout\<close>

text \<open>
  What the first \<open>try\<close> statement guarantees: the timeout is the parsed value unless
  parsing fails or the value is \<open><= 0\<close>, and then it is 2.0 with a warning; so \<open>0\<close>,
  \<open>-1\<close> and \<open>abc\<close> give 2.0 and \<open>5.5\<close> gives 5.5. The result is greater than zero or a
  NaN: \<open>nan <= 0\<close> is false, so a NaN passes the check.
\<close>

lemma py_float_examples:
  "py_float ''0'' = Inr (Finite 0)" "py_float ''-1'' = Inr (Finite (- 1))"
  "py_float ''abc'' = Inl ValueError" "py_float ''5.5'' = Inr (Finite (11 / 2))"
  "py_float ''nan'' = Inr NaN"
  by code_simp+

lemma not_le_zero_cases: "\<not> float_le_zero x \<Longrightarrow> float_gt_zero x \<or> x = NaN"
  by (cases x) auto

lemma timeout_sec_resolved:
  "\<exists>c w. load_webhook_config maxd env = Inr (c, w)
     \<and> (float_gt_zero (timeout_sec c) \<or> timeout_sec c = NaN)
     \<and> (case py_float (getenv_default env VAR_TIMEOUT_SEC ''2.0'') of
          Inr x \<Rightarrow>
            if float_le_zero x
            then timeout_sec c = Finite 2
                 \<and> warn_timeout_sec (getenv_default env VAR_TIMEOUT_SEC ''2.0'') \<in> set w
            else timeout_sec c = x
        | Inl e \<Rightarrow>
            timeout_sec c = Finite 2
            \<and> warn_timeout_sec (getenv_default env VAR_TIMEOUT_SEC ''2.0'') \<in> set w)"
proof (cases rule: load_webhook_config_cases [of env maxd])
  case (result t w1 n w2)
  obtain m where w2: "w2 = w1 @ m"
    using result(2) unfolding parse_sample_every_returns
    by (auto split: sum.splits if_splits)
  from result(1) have
    "(case py_float (getenv_default env VAR_TIMEOUT_SEC ''2.0'') of
        Inr x \<Rightarrow>
          if float_le_zero x
          then t = Finite 2 \<and> w1 = [warn_timeout_sec (getenv_default env VAR_TIMEOUT_SEC ''2.0'')]
          else t = x
      | Inl e \<Rightarrow>
          t = Finite 2 \<and> w1 = [warn_timeout_sec (getenv_default env VAR_TIMEOUT_SEC ''2.0'')])"
    unfolding parse_timeout_sec_returns by (auto split: sum.splits if_splits)
  then show ?thesis
    unfolding result(3) w2
    by (auto split: sum.splits if_splits dest: not_le_zero_cases)
qed

lemma timeout_sec_examples:
  "\<exists>c w. load_webhook_config maxd (env(VAR_TIMEOUT_SEC \<mapsto> ''0'')) = Inr (c, w)
     \<and> timeout_sec c = Finite 2 \<and> warn_timeout_sec ''0'' \<in> set w"
  "\<exists>c w. load_webhook_config maxd (env(VAR_TIMEOUT_SEC \<mapsto> ''-1'')) = Inr (c, w)
     \<and> timeout_sec c = Finite 2 \<and> warn_timeout_sec ''-1'' \<in> set w"
  "\<exists>c w. load_webhook_config maxd (env(VAR_TIMEOUT_SEC \<mapsto> ''abc'')) = Inr (c, w)
     \<and> timeout_sec c = Finite 2 \<and> warn_timeout_sec ''abc'' \<in> set w"
  "\<exists>c w. load_webhook_config maxd (env(VAR_TIMEOUT_SEC \<mapsto> ''5.5'')) = Inr (c, w)
     \<and> timeout_sec c = Finite (11 / 2)"
  using timeout_sec_resolved [of maxd "env(VAR_TIMEOUT_SEC \<mapsto> ''0'')"]
    timeout_sec_resolved [of maxd "env(VAR_TIMEOUT_SEC \<mapsto> ''-1'')"]
    timeout_sec_resolved [of maxd "env(VAR_TIMEOUT_SEC \<mapsto> ''abc'')"]
    timeout_sec_resolved [of maxd "env(VAR_TIMEOUT_SEC \<mapsto> ''5.5'')"]
  by (auto simp: getenv_default_upd py_float_examples)

text \<open>
  Claim C2 says that \<open>timeout_sec\<close> is greater than zero for every value of the variable.
  With the variable set to \<open>nan\<close> the function returns \<open>timeout_sec = nan\<close>, which is not
  greater than zero, whatever the other variables are.
\<close>

theorem timeout_sec_nan:
  "\<exists>c w. load_webhook_config maxd (env(VAR_TIMEOUT_SEC \<mapsto> ''nan'')) = Inr (c, w)
     \<and> timeout_sec c = NaN \<and> \<not> float_gt_zero (timeout_sec c)"
  using timeout_sec_resolved [of maxd "env(VAR_TIMEOUT_SEC \<mapsto> ''nan'')"]
  by (auto simp: getenv_default_upd py_float_examples)

subsection \<open>The mode\<close>


subsection \<open>The sampling interval\<close>

lemma py_int_examples:
  "py_int maxd ''0'' = Inr 0" "py_int maxd ''-3'' = Inr (- 3)"
  "py_int maxd ''x'' = Inl ValueError" "py_int maxd ''7'' = Inr 7"
  by (simp_all add: py_int_def num_strip_def take_sign_def space_to_ascii_def c_isspace_def
      is_digit_def digits_val_def digit_val_def Let_def)

lemma sample_every_resolved:
  "\<exists>c w. load_webhook_config maxd env = Inr (c, w)
     \<and> 1 \<le> sample_every c
     \<and> (case py_int maxd (getenv_default env VAR_SAMPLE_EVERY ''1'') of
          Inr k \<Rightarrow>
            if k < 1
            then sample_every c = 1
                 \<and> warn_sample_every (getenv_default env VAR_SAMPLE_EVERY ''1'') \<in> set w
            else sample_every c = k
        | Inl e \<Rightarrow>
            sample_every c = 1
            \<and> warn_sample_every (getenv_default env VAR_SAMPLE_EVERY ''1'') \<in> set w)"
proof (cases rule: load_webhook_config_cases [of env maxd])
  case (result t w1 n w2)
  from result(2) have
    "(case py_int maxd (getenv_default env VAR_SAMPLE_EVERY ''1'') of
        Inr k \<Rightarrow>
          if k < 1
          then n = 1 \<and> w2 = w1 @ [warn_sample_every (getenv_default env VAR_SAMPLE_EVERY ''1'')]
          else n = k
      | Inl e \<Rightarrow>
          n = 1 \<and> w2 = w1 @ [warn_sample_every (getenv_default env VAR_SAMPLE_EVERY ''1'')])"
    unfolding parse_sample_every_returns by (auto split: sum.splits if_splits)
  then show ?thesis
    unfolding result(3)
    by (auto split: sum.splits if_splits)
qed

text \<open>
  Claim C7. \<open>sample_every\<close> of the returned record is an integer \<open>>= 1\<close>: it is the
  parsed value unless parsing fails or the value is \<open>< 1\<close>, and then it is 1 with a
  warning; \<open>0\<close>, \<open>-3\<close> and \<open>x\<close> give 1 and \<open>7\<close> gives 7.
\<close>

theorem sample_every_positive:
  "(\<exists>c w. load_webhook_config maxd env = Inr (c, w)
      \<and> 1 \<le> sample_every c
      \<and> (case py_int maxd (getenv_default env VAR_SAMPLE_EVERY ''1'') of
           Inr k \<Rightarrow>
             if k < 1
             then sample_every c = 1
                  \<and> warn_sample_every (getenv_default env VAR_SAMPLE_EVERY ''1'') \<in> set w
             else sample_every c = k
         | Inl e \<Rightarrow>
             sample_every c = 1
             \<and> warn_sample_every (getenv_default env VAR_SAMPLE_EVERY ''1'') \<in> set w))
   \<and> (\<exists>c w. load_webhook_config maxd (env(VAR_SAMPLE_EVERY \<mapsto> ''0'')) = Inr (c, w)
      \<and> sample_every c = 1 \<and> warn_sample_every ''0'' \<in> set w)
   \<and> (\<exists>c w. load_webhook_config maxd (env(VAR_SAMPLE_EVERY \<mapsto> ''-3'')) = Inr (c, w)
      \<and> sample_every c = 1 \<and> warn_sample_every ''-3'' \<in> set w)
   \<and> (\<exists>c w. load_webhook_config maxd (env(VAR_SAMPLE_EVERY \<mapsto> ''x'')) = Inr (c, w)
      \<and> sample_every c = 1 \<and> warn_sample_every ''x'' \<in> set w)
   \<and> (\<exists>c w. load_webhook_config maxd (env(VAR_SAMPLE_EVERY \<mapsto> ''7'')) = Inr (c, w)
      \<and> sample_every c = 7)"
proof -
  have 0: "\<exists>c w. load_webhook_config maxd (env(VAR_SAMPLE_EVERY \<mapsto> ''0'')) = Inr (c, w)
      \<and> sample_every c = 1 \<and> warn_sample_every ''0'' \<in> set w"
    using sample_every_resolved [of maxd "env(VAR_SAMPLE_EVERY \<mapsto> ''0'')"]
    by (auto simp: getenv_default_upd py_int_examples)
  have 3: "\<exists>c w. load_webhook_config maxd (env(VAR_SAMPLE_EVERY \<mapsto> ''-3'')) = Inr (c, w)
      \<and> sample_every c = 1 \<and> warn_sample_every ''-3'' \<in> set w"
    using sample_every_resolved [of maxd "env(VAR_SAMPLE_EVERY \<mapsto> ''-3'')"]
    by (auto simp: getenv_default_upd py_int_examples)
  have x: "\<exists>c w. load_webhook_config maxd (env(VAR_SAMPLE_EVERY \<mapsto> ''x'')) = Inr (c, w)
      \<and> sample_every c = 1 \<and> warn_sample_every ''x'' \<in> set w"
    using sample_every_resolved [of maxd "env(VAR_SAMPLE_EVERY \<mapsto> ''x'')"]
    by (auto simp: getenv_default_upd py_int_examples)
  have 7: "\<exists>c w. load_webhook_config maxd (env(VAR_SAMPLE_EVERY \<mapsto> ''7'')) = Inr (c, w)
      \<and> sample_every c = 7"
    using sample_every_resolved [of maxd "env(VAR_SAMPLE_EVERY \<mapsto> ''7'')"]
    by (auto simp: getenv_default_upd py_int_examples)
  from sample_every_resolved [of maxd env] 0 3 x 7 show ?thesis
    by (intro conjI)
qed

subsection \<open>The URL\<close>

text \<open>
  Claim C8. The \<open>url\<close> of the returned record is the value of the variable with the
  surrounding whitespace removed, the empty string when it is unset, and nothing else is
  checked; with \<open>enabled\<close> set to \<open>true\<close> and the URL to \<open>" https://x "\<close> the record has
  \<open>enabled = True\<close> and \<open>url = "https://x"\<close>.
\<close>

theorem url_trimmed:
  "(\<exists>c w. load_webhook_config maxd (env(VAR_URL \<mapsto> v)) = Inr (c, w) \<and> url c = strip v)
   \<and> (\<exists>c w. load_webhook_config maxd (env(VAR_URL := None)) = Inr (c, w) \<and> url c = [])
   \<and> (\<exists>c w. load_webhook_config maxd (env(VAR_ENABLED \<mapsto> ''true'', VAR_URL \<mapsto> '' https://x ''))
               = Inr (c, w)
         \<and> enabled c \<and> url c = ''https://x'')"
proof -
  have 1: "\<exists>c w. load_webhook_config maxd (env(VAR_URL \<mapsto> v)) = Inr (c, w) \<and> url c = strip v"
    using load_webhook_config_fields [of maxd "env(VAR_URL \<mapsto> v)"]
    by (auto simp: getenv_default_upd)
  have 2: "\<exists>c w. load_webhook_config maxd (env(VAR_URL := None)) = Inr (c, w) \<and> url c = []"
    using load_webhook_config_fields [of maxd "env(VAR_URL := None)"]
    by (auto simp: getenv_default_unset strip_empty)
  have e: "env_bool (env(VAR_ENABLED \<mapsto> ''true'', VAR_URL \<mapsto> '' https://x '')) VAR_ENABLED False"
    by (simp add: env_bool_set lower_strip_true)
  have 3: "\<exists>c w. load_webhook_config maxd (env(VAR_ENABLED \<mapsto> ''true'', VAR_URL \<mapsto> '' https://x ''))
               = Inr (c, w)
         \<and> enabled c \<and> url c = ''https://x''"
    using load_webhook_config_fields
      [of maxd "env(VAR_ENABLED \<mapsto> ''true'', VAR_URL \<mapsto> '' https://x '')"] e
    by (auto simp: getenv_default_upd strip_url_example)
  from 1 2 3 show ?thesis by (intro conjI)
qed

subsection \<open>A blank \<open>include_metrics\<close>\<close>

lemma lower_empty: "lower [] = []"
  by (simp add: lower_def)

text \<open>
  Claim C9. When the variable of \<open>include_metrics\<close> is set to the empty string or to
  whitespace only, the field is false; so it is for every set value outside the truthy set
  after trimming and lowercasing. The default \<open>True\<close> is for the unset variable only.
\<close>

theorem include_metrics_blank_is_false:
  "(list_all isspace v \<longrightarrow>
      (\<exists>c w. load_webhook_config maxd (env(VAR_INCLUDE_METRICS \<mapsto> v)) = Inr (c, w)
         \<and> \<not> include_metrics c))
   \<and> (lower (strip v) \<notin> {''1'', ''true'', ''yes'', ''on''} \<longrightarrow>
      (\<exists>c w. load_webhook_config maxd (env(VAR_INCLUDE_METRICS \<mapsto> v)) = Inr (c, w)
         \<and> \<not> include_metrics c))
   \<and> (\<exists>c w. load_webhook_config maxd (env(VAR_INCLUDE_METRICS := None)) = Inr (c, w)
         \<and> include_metrics c)"
proof -
  have b: "env_bool (env(VAR_INCLUDE_METRICS \<mapsto> v)) VAR_INCLUDE_METRICS True
           = (lower (strip v) \<in> {''1'', ''true'', ''yes'', ''on''})"
    by (simp add: env_bool_set)
  have 2: "lower (strip v) \<notin> {''1'', ''true'', ''yes'', ''on''} \<longrightarrow>
      (\<exists>c w. load_webhook_config maxd (env(VAR_INCLUDE_METRICS \<mapsto> v)) = Inr (c, w)
         \<and> \<not> include_metrics c)"
    using load_webhook_config_fields [of maxd "env(VAR_INCLUDE_METRICS \<mapsto> v)"] b
    by auto
  have "list_all isspace v \<Longrightarrow> lower (strip v) \<notin> {''1'', ''true'', ''yes'', ''on''}"
    by (simp add: strip_all_space lower_empty)
  with 2 have 1: "list_all isspace v \<longrightarrow>
      (\<exists>c w. load_webhook_config maxd (env(VAR_INCLUDE_METRICS \<mapsto> v)) = Inr (c, w)
         \<and> \<not> include_metrics c)"
    by blast
  have 3: "\<exists>c w. load_webhook_config maxd (env(VAR_INCLUDE_METRICS := None)) = Inr (c, w)
         \<and> include_metrics c"
    using load_webhook_config_fields [of maxd "env(VAR_INCLUDE_METRICS := None)"]
    by (auto simp: env_bool_unset)
  from 1 2 3 show ?thesis by (intro conjI)
qed

theorem include_metrics_blank_is_false_witness:
  "(\<exists>c w. load_webhook_config 4300 [VAR_INCLUDE_METRICS \<mapsto> '' ''] = Inr (c, w)
      \<and> \<not> include_metrics c)
   \<and> (\<exists>c w. load_webhook_config 4300 [VAR_INCLUDE_METRICS \<mapsto> ''no''] = Inr (c, w)
      \<and> \<not> include_metrics c)"
proof -
  have h1: "list_all isspace '' ''"
    by code_simp
  have h2: "lower (strip ''no'') \<notin> {''1'', ''true'', ''yes'', ''on''}"
    by code_simp
  from include_metrics_blank_is_false [of "'' ''" 4300 Map.empty] h1
  have "\<exists>c w. load_webhook_config 4300 [VAR_INCLUDE_METRICS \<mapsto> '' ''] = Inr (c, w)
      \<and> \<not> include_metrics c"
    by blast
  moreover from include_metrics_blank_is_false [of "''no''" 4300 Map.empty] h2
  have "\<exists>c w. load_webhook_config 4300 [VAR_INCLUDE_METRICS \<mapsto> ''no''] = Inr (c, w)
      \<and> \<not> include_metrics c"
    by blast
  ultimately show ?thesis ..
qed

subsection \<open>Only the six variables and the digit limit matter\<close>

text \<open>
  A value of at most 640 characters is converted by \<open>int\<close> in the same way under every
  digit limit, and then so is the whole result.
\<close>

lemma length_num_strip: "length (num_strip s) \<le> length s"
proof -
  have "length (num_strip s) \<le> length (dropWhile c_isspace (map space_to_ascii s))"
    unfolding num_strip_def Let_def length_rev
    using length_dropWhile_le [of c_isspace "rev (dropWhile c_isspace (map space_to_ascii s))"]
    by simp
  also have "\<dots> \<le> length (map space_to_ascii s)"
    by (rule length_dropWhile_le)
  finally show ?thesis by simp
qed

lemma length_take_sign: "length (snd (take_sign s)) \<le> length s"
  by (cases s) (simp_all add: take_sign_def)

lemma py_int_short:
  assumes "length s \<le> 640"
  shows "py_int maxd s = py_int maxd' s"
proof -
  obtain neg body where ts: "take_sign (num_strip s) = (neg, body)"
    by (cases "take_sign (num_strip s)")
  from length_take_sign [of "num_strip s"] ts have "length body \<le> length (num_strip s)"
    by simp
  with length_num_strip [of s] assms have "length body \<le> 640"
    by simp
  then have "length (filter is_digit body) \<le> 640"
    by (rule le_trans [OF length_filter_le])
  then have "\<not> 640 < length (filter is_digit body)"
    by simp
  then show ?thesis
    by (simp add: py_int_def ts Let_def)
qed

lemma load_webhook_config_short_sample_every:
  assumes "length (getenv_default env VAR_SAMPLE_EVERY ''1'') \<le> 640"
  shows "load_webhook_config maxd env = load_webhook_config maxd' env"
  unfolding load_webhook_config_def parse_sample_every_def Let_def
    py_int_short [OF assms, of maxd maxd'] ..

text \<open>
  Claim C10 says that two calls in environments that agree on the six variables return
  equal records. The conversion of \<open>sample_every\<close> also depends on the limit that the
  interpreter sets on the digits of an integer literal, which it takes at start-up from
  the variable \<open>PYTHONINTMAXSTRDIGITS\<close> (4300 when unset). With \<open>sample_every\<close> set to
  641 ones, the limit 4300 accepts the value and the limit 640 refuses it, so an
  environment without \<open>PYTHONINTMAXSTRDIGITS\<close> and the same environment with
  \<open>PYTHONINTMAXSTRDIGITS=640\<close> agree on the six variables and give different records.
\<close>

theorem load_webhook_config_digit_limit_counterexample:
  "[VAR_SAMPLE_EVERY \<mapsto> replicate 641 (CHR ''1'')] VAR_ENABLED
     = [VAR_SAMPLE_EVERY \<mapsto> replicate 641 (CHR ''1''), ''PYTHONINTMAXSTRDIGITS'' \<mapsto> ''640'']
         VAR_ENABLED
   \<and> [VAR_SAMPLE_EVERY \<mapsto> replicate 641 (CHR ''1'')] VAR_URL
     = [VAR_SAMPLE_EVERY \<mapsto> replicate 641 (CHR ''1''), ''PYTHONINTMAXSTRDIGITS'' \<mapsto> ''640'']
         VAR_URL
   \<and> [VAR_SAMPLE_EVERY \<mapsto> replicate 641 (CHR ''1'')] VAR_TIMEOUT_SEC
     = [VAR_SAMPLE_EVERY \<mapsto> replicate 641 (CHR ''1''), ''PYTHONINTMAXSTRDIGITS'' \<mapsto> ''640'']
         VAR_TIMEOUT_SEC
   \<and> [VAR_SAMPLE_EVERY \<mapsto> replicate 641 (CHR ''1'')] VAR_MODE
     = [VAR_SAMPLE_EVERY \<mapsto> replicate 641 (CHR ''1''), ''PYTHONINTMAXSTRDIGITS'' \<mapsto> ''640'']
         VAR_MODE
   \<and> [VAR_SAMPLE_EVERY \<mapsto> replicate 641 (CHR ''1'')] VAR_SAMPLE_EVERY
     = [VAR_SAMPLE_EVERY \<mapsto> replicate 641 (CHR ''1''), ''PYTHONINTMAXSTRDIGITS'' \<mapsto> ''640'']
         VAR_SAMPLE_EVERY
   \<and> [VAR_SAMPLE_EVERY \<mapsto> replicate 641 (CHR ''1'')] VAR_INCLUDE_METRICS
     = [VAR_SAMPLE_EVERY \<mapsto> replicate 641 (CHR ''1''), ''PYTHONINTMAXSTRDIGITS'' \<mapsto> ''640'']
         VAR_INCLUDE_METRICS
   \<and> load_webhook_config 4300 [VAR_SAMPLE_EVERY \<mapsto> replicate 641 (CHR ''1'')]
     \<noteq> load_webhook_config 640
         [VAR_SAMPLE_EVERY \<mapsto> replicate 641 (CHR ''1''), ''PYTHONINTMAXSTRDIGITS'' \<mapsto> ''640'']"
  by code_simp

text \<open>
  Claim C10, amended. The result depends on the values of the six variables and on the
  digit limit of the interpreter only: for two environments that agree on the six
  variables, two calls under the same digit limit return equal results.
\<close>

theorem load_webhook_config_depends_on_six:
  assumes "\<forall>name \<in> {VAR_ENABLED, VAR_URL, VAR_TIMEOUT_SEC, VAR_MODE, VAR_SAMPLE_EVERY,
                       VAR_INCLUDE_METRICS}. env1 name = env2 name"
  shows "load_webhook_config maxd env1 = load_webhook_config maxd env2"
proof -
  from assms have eq:
    "env1 VAR_ENABLED = env2 VAR_ENABLED" "env1 VAR_URL = env2 VAR_URL"
    "env1 VAR_TIMEOUT_SEC = env2 VAR_TIMEOUT_SEC" "env1 VAR_MODE = env2 VAR_MODE"
    "env1 VAR_SAMPLE_EVERY = env2 VAR_SAMPLE_EVERY"
    "env1 VAR_INCLUDE_METRICS = env2 VAR_INCLUDE_METRICS"
    by simp_all
  show ?thesis
    unfolding load_webhook_config_def env_bool_def getenv_def getenv_default_def eq ..
qed

theorem load_webhook_config_depends_on_six_witness:
  "load_webhook_config 4300 [VAR_URL \<mapsto> ''a'']
     = load_webhook_config 4300 [VAR_URL \<mapsto> ''a'', ''PATH'' \<mapsto> ''/usr/bin'']"
  using load_webhook_config_depends_on_six
    [of "[VAR_URL \<mapsto> ''a'']" "[VAR_URL \<mapsto> ''a'', ''PATH'' \<mapsto> ''/usr/bin'']" 4300]
  by simp

end
